theory Spec2Isabelle
  imports Main "HOL-Library.Word"
begin

section \<open>Python values\<close>

text \<open>
  The handlers of \<^verbatim>\<open>burpui/api/tasks.py\<close> work on the result payloads of the task
  queue: \<^verbatim>\<open>None\<close>, booleans, integers, strings, lists, string-keyed dictionaries and,
  for a task that raised, an exception instance (class name and message).
  A dictionary is an association list; \<^verbatim>\<open>d.get(k)\<close> reads the first binding.
  Characters are code points below 256.
\<close>

datatype pyval =
    PyNone
  | PyBool bool
  | PyInt int
  | PyStr string
  | PyList "pyval list"
  | PyDict "(string \<times> pyval) list"
  | PyExc string string

text \<open>
  Unhandled Python exceptions, by class; \<open>SQLAlchemyError\<close> stands for whatever a failing
  database query raises.
\<close>

datatype exn = AttributeError | TypeError | ValueError | StructError | SQLAlchemyError

text \<open>Truth value of an object, as \<^verbatim>\<open>if x\<close> and \<^verbatim>\<open>not x\<close> test it.\<close>

fun truthy :: "pyval \<Rightarrow> bool" where
  "truthy PyNone = False"
| "truthy (PyBool b) = b"
| "truthy (PyInt i) = (i \<noteq> 0)"
| "truthy (PyStr s) = (s \<noteq> [])"
| "truthy (PyList xs) = (xs \<noteq> [])"
| "truthy (PyDict kvs) = (kvs \<noteq> [])"
| "truthy (PyExc c m) = True"

text \<open>
  \<^verbatim>\<open>x.get(k)\<close>: only a dictionary has the method; on anything else the attribute
  lookup raises \<^verbatim>\<open>AttributeError\<close>. A missing key gives \<^verbatim>\<open>None\<close>.
\<close>

fun py_get :: "pyval \<Rightarrow> string \<Rightarrow> exn + pyval" where
  "py_get (PyDict kvs) k = Inr (case map_of kvs k of None \<Rightarrow> PyNone | Some v \<Rightarrow> v)"
| "py_get PyNone k = Inl AttributeError"
| "py_get (PyBool b) k = Inl AttributeError"
| "py_get (PyInt i) k = Inl AttributeError"
| "py_get (PyStr s) k = Inl AttributeError"
| "py_get (PyList xs) k = Inl AttributeError"
| "py_get (PyExc c m) k = Inl AttributeError"

subsection \<open>Text of a value: \<^verbatim>\<open>str\<close>, \<^verbatim>\<open>repr\<close>, \<^verbatim>\<open>"{}".format\<close> and \<^verbatim>\<open>int\<close>\<close>

fun digits :: "nat \<Rightarrow> string" where
  "digits n = (if n < 10 then [''0123456789'' ! n]
               else digits (n div 10) @ [''0123456789'' ! (n mod 10)])"

declare digits.simps [simp del]

definition str_int :: "int \<Rightarrow> string" where
  "str_int i = (if i < 0 then CHR ''-'' # digits (nat (- i)) else digits (nat i))"

fun join :: "string \<Rightarrow> string list \<Rightarrow> string" where
  "join sep [] = []"
| "join sep [x] = x"
| "join sep (x # y # r) = x @ sep @ join sep (y # r)"

definition hex2 :: "nat \<Rightarrow> string" where
  "hex2 n = [''0123456789abcdef'' ! (n div 16), ''0123456789abcdef'' ! (n mod 16)]"

text \<open>
  \<^verbatim>\<open>repr\<close> of a string: quoted with \<^verbatim>\<open>'\<close>, or with \<^verbatim>\<open>"\<close> when the text holds a
  \<^verbatim>\<open>'\<close> and no \<^verbatim>\<open>"\<close>; the quote and the backslash are escaped, as are the
  characters that are not printable.
\<close>

definition esc_char :: "char \<Rightarrow> char \<Rightarrow> string" where
  "esc_char q c =
     (if c = q \<or> c = CHR 0x5C then [CHR 0x5C, c]
      else if c = CHR 0x0A then [CHR 0x5C, CHR ''n'']
      else if c = CHR 0x0D then [CHR 0x5C, CHR ''r'']
      else if c = CHR 0x09 then [CHR 0x5C, CHR ''t'']
      else if (of_char c :: nat) < 32 \<or> (127 \<le> (of_char c :: nat) \<and> (of_char c :: nat) \<le> 160)
              \<or> (of_char c :: nat) = 173
        then [CHR 0x5C, CHR ''x''] @ hex2 (of_char c)
      else [c])"

definition repr_str :: "string \<Rightarrow> string" where
  "repr_str s =
     (let q = (if CHR 0x27 \<in> set s \<and> CHR 0x22 \<notin> set s then CHR 0x22 else CHR 0x27)
      in [q] @ concat (map (esc_char q) s) @ [q])"

fun py_repr :: "pyval \<Rightarrow> string" where
  "py_repr PyNone = ''None''"
| "py_repr (PyBool b) = (if b then ''True'' else ''False'')"
| "py_repr (PyInt i) = str_int i"
| "py_repr (PyStr s) = repr_str s"
| "py_repr (PyList xs) = ''['' @ join '', '' (map py_repr xs) @ '']''"
| "py_repr (PyDict kvs) =
     ''{'' @ join '', '' (map (\<lambda>(k, v). repr_str k @ '': '' @ py_repr v) kvs) @ ''}''"
| "py_repr (PyExc c m) = c @ ''('' @ repr_str m @ '')''"

text \<open>\<^verbatim>\<open>str(x)\<close>, which is also what \<^verbatim>\<open>"{}".format(x)\<close> inserts.\<close>

fun py_str :: "pyval \<Rightarrow> string" where
  "py_str (PyStr s) = s"
| "py_str (PyExc c m) = m"
| "py_str v = py_repr v"










section \<open>The relay socket\<close>

text \<open>
  In remote mode the archive is read from a socket to the node that holds it
  (\<^verbatim>\<open>TaskGetFile.stream_file\<close>). What the peer does is a script of events, one per
  wait on the socket: either nothing arrives within one 5-second wait (\<open>Silent\<close>), or the
  socket is readable with the given bytes pending (\<open>Readable\<close>; no bytes pending is what
  a reader sees at end of stream). After the script the peer has either closed the
  connection (\<open>peer_closed\<close>: the socket stays readable and every read returns nothing)
  or stays silent for ever.
\<close>

type_synonym byte = "8 word"

datatype event = Silent | Readable "byte list"

record sock =
  events :: "event list"
  peer_closed :: bool

text \<open>
  What the handler does on the socket, in order, together with the debug line
  \<^verbatim>\<open>"{}/{}".format(received, size)\<close> that the loop logs after each chunk.
\<close>

datatype step =
    Select nat
  | Recv nat
  | Debug nat nat
  | SendAll "byte list"
  | Close

text \<open>
  How the body generator ends: it runs to its end, it raises the HTTP error of
  \<^verbatim>\<open>self.abort\<close>, or it never leaves the loop.
\<close>

datatype stream_end = Completed | Aborted nat string | Spin

text \<open>
  \<^verbatim>\<open>struct.pack("!Q", n)\<close> and \<^verbatim>\<open>struct.unpack("!Q", buf)\<close>: eight bytes, unsigned,
  big-endian. The source packs the constant 2 only. Unpacking a buffer that is not eight
  bytes long raises \<^verbatim>\<open>struct.error\<close>.
\<close>

definition pack_Q :: "nat \<Rightarrow> byte list" where
  "pack_Q n = [of_nat (n div 256 ^ 7), of_nat (n div 256 ^ 6), of_nat (n div 256 ^ 5),
               of_nat (n div 256 ^ 4), of_nat (n div 256 ^ 3), of_nat (n div 256 ^ 2),
               of_nat (n div 256), of_nat n]"

definition unpack_Q :: "byte list \<Rightarrow> nat option" where
  "unpack_Q buf =
     (if length buf = 8 then Some (foldl (\<lambda>a b. a * 256 + unat b) 0 buf) else None)"

text \<open>
  \<^verbatim>\<open>sock.recv(n)\<close> on a readable socket returns at most \<open>n\<close> of the pending bytes; the
  others stay pending.
\<close>

definition after_recv :: "nat \<Rightarrow> byte list \<Rightarrow> event list \<Rightarrow> event list" where
  "after_recv n bs es = (if drop n bs = [] then es else Readable (drop n bs) # es)"

text \<open>
  The first read, \<^verbatim>\<open>socket.recv(8)\<close>, is made without a wait: it blocks through silent
  periods until the socket is readable. \<open>None\<close>: it never returns.
\<close>

fun recv_blocking :: "nat \<Rightarrow> event list \<Rightarrow> bool \<Rightarrow> (byte list \<times> event list) option" where
  "recv_blocking n [] closed = (if closed then Some ([], []) else None)"
| "recv_blocking n (Silent # es) closed = recv_blocking n es closed"
| "recv_blocking n (Readable bs # es) closed = Some (take n bs, after_recv n bs es)"

fun event_weight :: "event \<Rightarrow> nat" where
  "event_weight Silent = 1"
| "event_weight (Readable bs) = Suc (length bs)"

text \<open>
  The loop of the generator \<^verbatim>\<open>stream(sock, size)\<close>:
  \<^verbatim>\<open>
  while received < size:
      buf = b""
      r, _, _ = select.select([sock], [], [], 5)
      if not r:
          self.abort(500, "Socket timed-out")
      buf += sock.recv(bsize)
      if not buf:
          continue
      received += len(buf)
      self.logger.debug("{}/{}".format(received, size))
      yield buf
  sock.sendall(struct.pack("!Q", 2))
  sock.sendall(b"RE")
  sock.close()
  \<close>
  The result is the steps taken, the chunks yielded and how the generator ended. Once
  the peer has closed, every wait returns at once and every read is empty, so the loop
  never ends; so it does when it asks for 0 bytes while bytes are pending.
\<close>

function stream_loop ::
  "nat \<Rightarrow> nat \<Rightarrow> nat \<Rightarrow> event list \<Rightarrow> bool \<Rightarrow> step list \<times> byte list list \<times> stream_end" where
  "stream_loop bsize expected received evs closed =
     (if received < expected then
        (case evs of
           [] \<Rightarrow> (if closed then ([], [], Spin)
                  else ([Select 5], [], Aborted 500 ''Socket timed-out''))
         | Silent # es \<Rightarrow> ([Select 5], [], Aborted 500 ''Socket timed-out'')
         | Readable bs # es \<Rightarrow>
             (if take bsize bs = [] then
                (if bs = [] then
                   (case stream_loop bsize expected received es closed of
                      (t, out, e) \<Rightarrow> (Select 5 # Recv bsize # t, out, e))
                 else ([], [], Spin))
              else
                (case stream_loop bsize expected (received + length (take bsize bs))
                        (after_recv bsize bs es) closed of
                   (t, out, e) \<Rightarrow>
                     (Select 5 # Recv bsize # Debug (received + length (take bsize bs)) expected # t,
                      take bsize bs # out, e))))
      else ([SendAll (pack_Q 2), SendAll [0x52, 0x45], Close], [], Completed))"
  by pat_completeness auto
termination
  by (relation "measure (\<lambda>(bsize, expected, received, evs, closed). sum_list (map event_weight evs))")
     (auto simp: after_recv_def)

declare stream_loop.simps [simp del]

text \<open>The generator: the chunk size is 1024, or the whole size when that is smaller.\<close>

definition stream :: "event list \<Rightarrow> bool \<Rightarrow> nat \<Rightarrow> step list \<times> byte list list \<times> stream_end" where
  "stream evs closed expected =
     (let bsize = 1024;
          bsize = (if expected < bsize then expected else bsize)
      in stream_loop bsize expected 0 evs closed)"

section \<open>Tasks, durable records and the world a request runs in\<close>

text \<open>
  A task handle as the handlers read it: \<^verbatim>\<open>task.state\<close> and \<^verbatim>\<open>task.result\<close>.
\<close>

record handle =
  state :: string
  result :: pyval

text \<open>
  Modelled from the spec: the \<^verbatim>\<open>Task\<close> model of \<^verbatim>\<open>burpui/models.py\<close>, which is not
  part of the sources at hand. A durable record has a unique id, shared with the task
  handle, the task-type name and the owning user; the table is a map from the id.
\<close>

record task_row =
  row_name :: string
  row_user :: string

text \<open>The current user: \<^verbatim>\<open>current_user.name\<close> and \<^verbatim>\<open>current_user.acl.is_admin()\<close>.\<close>

record caller =
  user_name :: string
  is_admin :: bool

text \<open>
  Everything else a request reads or changes:
  \<^item> \<open>registry\<close>: the handles of the task queue, by task id;
  \<^item> \<open>revoked\<close>: the ids on which \<^verbatim>\<open>task.revoke()\<close> was called, oldest first;
  \<^item> \<open>db\<close>: the table of durable records, \<open>None\<close> when the application runs without
    SQL (\<^verbatim>\<open>db = None\<close>); \<open>db_query_fault\<close>: looking a record up raises, which
    nobody catches; \<open>db_fault\<close>: deleting and committing raises, which the handlers
    catch and roll back;
  \<^item> \<open>open_rb\<close>: what \<^verbatim>\<open>open(path, "rb")\<close> gives, the text of the exception it raises
    or the content of the file; \<open>send_file_error\<close>: the text of the exception that
    preparing the response raises, if it does;
  \<^item> \<open>get_file\<close>: \<^verbatim>\<open>bui.client.get_file(path, server)\<close>, the socket to the remote node
    or nothing; \<open>sock_trace\<close>: the steps taken on that socket;
  \<^item> \<open>cache\<close>: the entries of the shared cache; \<open>session_extra\<close>: the value of
    \<^verbatim>\<open>session["_extra"]\<close> when the key is set; \<open>g_now\<close>: \<^verbatim>\<open>g.now\<close>;
  \<^item> \<open>with_celery\<close>: \<^verbatim>\<open>bui.config["WITH_CELERY"]\<close>; \<open>forced_schedulings\<close>: how often
    \<^verbatim>\<open>force_scheduling_now()\<close> ran.
  Lines written to the audit and debug logs by the handlers are left out.
\<close>

record world =
  registry :: "string \<rightharpoonup> handle"
  revoked :: "string list"
  db :: "(string \<rightharpoonup> task_row) option"
  db_query_fault :: bool
  db_fault :: bool
  open_rb :: "pyval \<Rightarrow> string + byte list"
  send_file_error :: "string option"
  get_file :: "pyval \<Rightarrow> pyval \<Rightarrow> sock option"
  sock_trace :: "step list"
  cache :: "(string \<times> pyval) list"
  session_extra :: "pyval option"
  g_now :: pyval
  with_celery :: bool
  forced_schedulings :: nat

text \<open>
  Modelled from the spec: the task objects \<^verbatim>\<open>perform_restore\<close>, \<^verbatim>\<open>load_all_tree\<close> and
  \<^verbatim>\<open>delete_client\<close> of \<^verbatim>\<open>burpui/tasks.py\<close>, which is not part of the sources at hand.
  The registry maps a task id to a handle that reports one of the states PENDING,
  RUNNING, SUCCESS and FAILURE and, once terminal, a result. The three task objects
  share one registry. The handlers never test a handle for absence and the spec names no
  further state, so an id without a handle reports the first state, PENDING, and no
  result, which is how the result backend of the task queue answers for an id it does
  not know. No transition leaves a terminal state: revoking asks the queue to give the
  task up and leaves the state and the result stored for the id as they are.
\<close>

definition AsyncResult :: "world \<Rightarrow> string \<Rightarrow> handle" where
  "AsyncResult w task_id =
     (case registry w task_id of
        Some h \<Rightarrow> h
      | None \<Rightarrow> \<lparr>state = ''PENDING'', result = PyNone\<rparr>)"

definition revoke :: "world \<Rightarrow> string \<Rightarrow> world" where
  "revoke w task_id = w\<lparr>revoked := revoked w @ [task_id]\<rparr>"

text \<open>
  The bookkeeping block that \<^verbatim>\<open>TaskStatus.get\<close> and \<^verbatim>\<open>TaskGetFile.get\<close> share:
  \<^verbatim>\<open>
  if db:
      rec = Task.query.filter_by(uuid=task_id).first()
      if rec:
          try:
              db.session.delete(rec)
              db.session.commit()
          except:
              db.session.rollback()
  \<close>
  \<open>drop_record\<close> is the part from \<^verbatim>\<open>if rec\<close> on: deleting, committing, and rolling back
  when that raises. The query before it is outside the \<^verbatim>\<open>try\<close>: when it raises, the
  exception leaves the handler.
\<close>

definition drop_record :: "world \<Rightarrow> string \<Rightarrow> world" where
  "drop_record w task_id =
     (case db w of
        None \<Rightarrow> w
      | Some tbl \<Rightarrow>
          (case tbl task_id of
             None \<Rightarrow> w
           | Some rec \<Rightarrow>
               (if db_fault w then w
                else w\<lparr>db := Some (tbl(task_id := None))\<rparr>)))"

definition purge_record :: "world \<Rightarrow> string \<Rightarrow> exn + world" where
  "purge_record w task_id =
     (case db w of
        None \<Rightarrow> Inr w
      | Some tbl \<Rightarrow>
          (if db_query_fault w then Inl SQLAlchemyError
           else Inr (drop_record w task_id)))"

text \<open>
  What a request ends in: an HTTP error raised by \<^verbatim>\<open>self.abort(code, message)\<close>, an
  exception nobody handles, a read that never returns, or one of the answers of the
  handlers.
\<close>

datatype location = UrlFor string string pyval

record file_response =
  file_body :: "byte list"
  attachment_filename :: pyval
  file_mimetype :: string
  file_cookies :: "(string \<times> string) list"

record stream_response =
  content_length :: nat
  disposition_filename :: string
  stream_mimetype :: string
  stream_cookies :: "(string \<times> string) list"
  chunks :: "byte list list"
  ending :: stream_end

datatype outcome =
    Abort nat "string option"
  | Crash exn
  | Hang
  | Status string "location option"
  | Cancelled
  | Payload pyval
  | FileSent file_response
  | Streamed stream_response

text \<open>The server of the route, \<^verbatim>\<open>None\<close> when the route has none.\<close>

fun node :: "string option \<Rightarrow> pyval" where
  "node None = PyNone"
| "node (Some s) = PyStr s"

section \<open>Status and cancellation: \<^verbatim>\<open>TaskStatus\<close>\<close>

text \<open>The table \<^verbatim>\<open>task_types\<close>: the task and the endpoint that delivers its result.\<close>

definition task_types :: "string \<rightharpoonup> string \<times> string" where
  "task_types =
     [''restore'' \<mapsto> (''perform_restore'', ''.task_get_file''),
      ''browse'' \<mapsto> (''load_all_tree'', ''.task_do_browse_all''),
      ''delete'' \<mapsto> (''delete_client'', ''.task_deleted_client'')]"

text \<open>\<^verbatim>\<open>TaskStatus.get(task_type, task_id, server)\<close>.\<close>

definition status_get :: "world \<Rightarrow> string \<Rightarrow> string \<Rightarrow> string option \<Rightarrow> outcome \<times> world" where
  "status_get w task_type task_id server =
     (case task_types task_type of
        None \<Rightarrow> (Abort 400 None, w)
      | Some (task_obj, callback) \<Rightarrow>
          (let task = AsyncResult w task_id in
           if state task = ''FAILURE'' then
             (case purge_record w task_id of
                Inl e \<Rightarrow> (Crash e, w)
              | Inr w1 \<Rightarrow>
                  (let w2 = revoke w1 task_id;
                       err = py_str (result task)
                   in (Abort 502 (Some err), w2)))
           else if state task = ''SUCCESS'' then
             (if \<not> truthy (result task)
              then (Abort 500 (Some ''The task did not return anything''), w)
              else
                (case py_get (result task) ''server'' of
                   Inl e \<Rightarrow> (Crash e, w)
                 | Inr srv \<Rightarrow>
                     (Status (state task) (Some (UrlFor callback task_id srv)), w)))
           else (Status (state task) None, w)))"

text \<open>\<^verbatim>\<open>TaskStatus.delete(task_type, task_id, server)\<close>.\<close>

definition status_delete ::
  "caller \<Rightarrow> world \<Rightarrow> string \<Rightarrow> string \<Rightarrow> string option \<Rightarrow> outcome \<times> world" where
  "status_delete current_user w task_type task_id server =
     (case task_types task_type of
        None \<Rightarrow> (Abort 400 None, w)
      | Some (task_obj, callback) \<Rightarrow>
          (let task = AsyncResult w task_id in
           case py_get (result task) ''user'' of
             Inl e \<Rightarrow> (Crash e, w)
           | Inr user \<Rightarrow>
               (case py_get (result task) ''server'' of
                  Inl e \<Rightarrow> (Crash e, w)
                | Inr dst_server \<Rightarrow>
                    (if (PyStr (user_name current_user) \<noteq> user
                          \<or> (truthy dst_server \<and> dst_server \<noteq> node server))
                        \<and> \<not> is_admin current_user
                     then (Abort 403 (Some ''Unauthorized access''), w)
                     else (Cancelled, revoke w task_id)))))"

section \<open>Delivering the archive: \<^verbatim>\<open>TaskGetFile\<close>\<close>

text \<open>
  \<^verbatim>\<open>TaskGetFile.stream_file(path, filename, server)\<close>. The length is read with one
  \<^verbatim>\<open>recv(8)\<close>; the response carries it as \<^verbatim>\<open>Content-Length\<close> and the generator as
  its body, which the server drains after the handler has returned. \<^verbatim>\<open>headers.add\<close>
  refuses a header value with a line break in it and raises \<^verbatim>\<open>ValueError\<close>. The ETag is
  built from \<^verbatim>\<open>filename.encode("utf-8")\<close>, which raises \<^verbatim>\<open>AttributeError\<close> when the file
  name is not a string; its value, which holds the time of day, is left out.
\<close>

definition stream_file :: "world \<Rightarrow> pyval \<Rightarrow> pyval \<Rightarrow> pyval \<Rightarrow> outcome \<times> world" where
  "stream_file w path filename server =
     (case get_file w path server of
        None \<Rightarrow> (Abort 500 None, w)
      | Some socket \<Rightarrow>
          (case recv_blocking 8 (events socket) (peer_closed socket) of
             None \<Rightarrow> (Hang, w\<lparr>sock_trace := [Recv 8]\<rparr>)
           | Some (lengthbuf, es) \<Rightarrow>
               (case unpack_Q lengthbuf of
                  None \<Rightarrow> (Crash StructError, w\<lparr>sock_trace := [Recv 8]\<rparr>)
                | Some len \<Rightarrow>
                    (case filename of
                       PyStr f \<Rightarrow>
                         (if CHR 0x0A \<in> set f \<or> CHR 0x0D \<in> set f
                          then (Crash ValueError, w\<lparr>sock_trace := [Recv 8]\<rparr>)
                          else
                         (case stream es (peer_closed socket) len of
                            (t, out, e) \<Rightarrow>
                              (Streamed \<lparr>content_length = len,
                                         disposition_filename = f,
                                         stream_mimetype = ''application/zip'',
                                         stream_cookies = [(''fileDownload'', ''true'')],
                                         chunks = out,
                                         ending = e\<rparr>,
                               w\<lparr>sock_trace := Recv 8 # t\<rparr>)))
                     | _ \<Rightarrow> (Crash AttributeError, w\<lparr>sock_trace := [Recv 8]\<rparr>)))))"

text \<open>
  \<^verbatim>\<open>os.remove(path)\<close>, which the local branch registers with \<^verbatim>\<open>after_this_request\<close>
  once the file is open: it runs when the request ends, and the path cannot be opened
  afterwards.
\<close>

definition enoent :: "pyval \<Rightarrow> string" where
  "enoent path = ''[Errno 2] No such file or directory: '' @ py_repr path"

definition remove_file :: "world \<Rightarrow> pyval \<Rightarrow> world" where
  "remove_file w path = w\<lparr>open_rb := (open_rb w)(path := Inl (enoent path))\<rparr>"

definition generic_error :: string where
  "generic_error = ''An error occurred while performing the restoration. Please contact your administrator for further details''"

text \<open>\<^verbatim>\<open>TaskGetFile.get(task_id, server)\<close>.\<close>

definition task_get_file ::
  "caller \<Rightarrow> world \<Rightarrow> string \<Rightarrow> string option \<Rightarrow> outcome \<times> world" where
  "task_get_file current_user w task_id server =
     (let task = AsyncResult w task_id in
      if state task \<noteq> ''SUCCESS'' then
        (if state task = ''FAILURE'' then
           (case py_get (result task) ''error'' of
              Inl e \<Rightarrow> (Crash e, w)
            | Inr err \<Rightarrow>
                (case py_get (result task) ''admin'' of
                   Inl e \<Rightarrow> (Crash e, w)
                 | Inr adm \<Rightarrow>
                     (let err = (if err \<noteq> PyStr ''encrypted'' \<and> \<not> truthy adm
                                 then PyStr generic_error else err)
                      in (Abort 500 (Some (''Unsuccessful task:'' @ [CHR 0x0A] @ py_str err)), w))))
         else (Abort 400 (Some (''Task not processed yet: '' @ state task)), w))
      else
        (case py_get (result task) ''path'' of
           Inl e \<Rightarrow> (Crash e, w)
         | Inr path \<Rightarrow>
         (case py_get (result task) ''user'' of
           Inl e \<Rightarrow> (Crash e, w)
         | Inr user \<Rightarrow>
         (case py_get (result task) ''server'' of
           Inl e \<Rightarrow> (Crash e, w)
         | Inr dst_server \<Rightarrow>
         (case py_get (result task) ''filename'' of
           Inl e \<Rightarrow> (Crash e, w)
         | Inr filename \<Rightarrow>
             (if (PyStr (user_name current_user) \<noteq> user
                   \<or> (truthy dst_server \<and> dst_server \<noteq> node server))
                 \<and> \<not> is_admin current_user
              then (Abort 403 (Some ''Unauthorized access''), w)
              else
                (case purge_record w task_id of
                   Inl e \<Rightarrow> (Crash e, w)
                 | Inr w1 \<Rightarrow>
                (let w2 = revoke w1 task_id
                 in if truthy dst_server then stream_file w2 path filename dst_server
                    else
                      (case open_rb w2 path of
                         Inl msg \<Rightarrow> (Abort 500 (Some msg), w2)
                       | Inr content \<Rightarrow>
                           (case send_file_error w2 of
                              Some msg \<Rightarrow> (Abort 500 (Some msg), remove_file w2 path)
                            | None \<Rightarrow>
                                (FileSent \<lparr>file_body = content,
                                           attachment_filename = filename,
                                           file_mimetype = ''application/zip'',
                                           file_cookies = [(''fileDownload'', ''true'')]\<rparr>,
                                 remove_file w2 path)))))))))))"

section \<open>The results of the other tasks\<close>


text \<open>\<^verbatim>\<open>TaskDoBrowseAll.get(task_id, server)\<close>.\<close>

definition task_do_browse_all ::
  "caller \<Rightarrow> world \<Rightarrow> string \<Rightarrow> string option \<Rightarrow> outcome \<times> world" where
  "task_do_browse_all current_user w task_id server =
     (let task = AsyncResult w task_id in
      if state task \<noteq> ''SUCCESS'' then
        (if state task = ''FAILURE'' then
           (case py_get (result task) ''error'' of
              Inl e \<Rightarrow> (Crash e, w)
            | Inr err \<Rightarrow> (Abort 500 (Some (''Unsuccessful task: '' @ py_str err)), w))
         else (Abort 400 (Some (''Task not processed yet: '' @ state task)), w))
      else
        (case py_get (result task) ''user'' of
           Inl e \<Rightarrow> (Crash e, w)
         | Inr user \<Rightarrow>
         (case py_get (result task) ''server'' of
           Inl e \<Rightarrow> (Crash e, w)
         | Inr dst_server \<Rightarrow>
         (case py_get (result task) ''tree'' of
           Inl e \<Rightarrow> (Crash e, w)
         | Inr resp \<Rightarrow>
             (if PyStr (user_name current_user) \<noteq> user
                 \<or> (truthy dst_server \<and> dst_server \<noteq> node server)
              then (Abort 403 (Some ''Unauthorized access''), w)
              else (Payload resp, revoke w task_id))))))"

section \<open>The predicates of the specification and sample worlds\<close>

text \<open>
  The authorization predicate in the words of the specification: true iff the caller is
  the task owner and the caller's target node is unset or equals the task's origin node,
  or the caller is an administrator.
\<close>

definition authorized ::
  "string \<Rightarrow> pyval \<Rightarrow> string option \<Rightarrow> pyval \<Rightarrow> bool \<Rightarrow> bool" where
  "authorized caller_name task_owner caller_target_node task_origin_node admin =
     ((PyStr caller_name = task_owner
        \<and> (caller_target_node = None \<or> node caller_target_node = task_origin_node))
      \<or> admin)"

text \<open>
  A world in which nothing has happened yet: no task, no database, no file, no remote
  node, an empty cache and session.
\<close>

definition quiet_world :: world where
  "quiet_world =
     \<lparr>registry = Map.empty, revoked = [], db = None, db_query_fault = False,
      db_fault = False,
      open_rb = (\<lambda>p. Inl (enoent p)), send_file_error = None,
      get_file = (\<lambda>p s. None), sock_trace = [],
      cache = [], session_extra = None, g_now = PyInt 0,
      with_celery = False, forced_schedulings = 0\<rparr>"

definition done_task :: "(string \<times> pyval) list \<Rightarrow> handle" where
  "done_task kvs = \<lparr>state = ''SUCCESS'', result = PyDict kvs\<rparr>"

definition failed_task :: "pyval \<Rightarrow> handle" where
  "failed_task r = \<lparr>state = ''FAILURE'', result = r\<rparr>"

definition alice :: caller where
  "alice = \<lparr>user_name = ''alice'', is_admin = False\<rparr>"

definition root :: caller where
  "root = \<lparr>user_name = ''root'', is_admin = True\<rparr>"

text \<open>
  Checks on the steps of a transfer. \<open>waits_before_reads\<close>: every read comes right
  after a wait of 5 seconds. \<open>reads_within_remaining\<close>: every read asks for at most 1024
  bytes and for no more than the bytes still expected, the count received so far being
  the one of the last debug line. \<open>reading_step\<close>: a step that sends nothing and leaves the
  socket open. \<open>payload_of\<close>: the bytes of a script in which the peer never stalls.
\<close>

fun waits_before_reads :: "step list \<Rightarrow> bool" where
  "waits_before_reads [] = True"
| "waits_before_reads (Select t # Recv n # r) = (t = 5 \<and> waits_before_reads r)"
| "waits_before_reads (Recv n # r) = False"
| "waits_before_reads (s # r) = waits_before_reads r"

fun reads_within_remaining :: "nat \<Rightarrow> nat \<Rightarrow> step list \<Rightarrow> bool" where
  "reads_within_remaining expected received [] = True"
| "reads_within_remaining expected received (Recv n # r) =
     (n \<le> 1024 \<and> n \<le> expected - received \<and> reads_within_remaining expected received r)"
| "reads_within_remaining expected received (Debug rcv e # r) =
     reads_within_remaining expected rcv r"
| "reads_within_remaining expected received (s # r) =
     reads_within_remaining expected received r"

fun payload_of :: "event list \<Rightarrow> byte list option" where
  "payload_of [] = Some []"
| "payload_of (Silent # es) = None"
| "payload_of (Readable bs # es) = map_option ((@) bs) (payload_of es)"

fun reading_step :: "step \<Rightarrow> bool" where
  "reading_step (Select t) = True"
| "reading_step (Recv n) = True"
| "reading_step (Debug r e) = True"
| "reading_step (SendAll bs) = False"
| "reading_step Close = False"

text \<open>A world whose remote node answers every request for a file with the given script.\<close>

definition relay_world :: "event list \<Rightarrow> bool \<Rightarrow> world" where
  "relay_world evs closed =
     quiet_world\<lparr>get_file := (\<lambda>p s. Some \<lparr>events = evs, peer_closed = closed\<rparr>)\<rparr>"

text \<open>A text between single quotes, as \<^verbatim>\<open>repr\<close> prints a plain string.\<close>

definition quoted :: "string \<Rightarrow> string" where
  "quoted s = CHR 0x27 # s @ [CHR 0x27]"

text \<open>Whether the database holds a durable record for the task id.\<close>

definition has_record :: "world \<Rightarrow> string \<Rightarrow> bool" where
  "has_record w task_id = (case db w of None \<Rightarrow> False | Some tbl \<Rightarrow> tbl task_id \<noteq> None)"

text \<open>
  A world with the task \<open>t1\<close> of user \<open>alice\<close>, its durable record, and a database on which
  deleting raises.
\<close>

definition stuck_db_world :: "handle \<Rightarrow> world" where
  "stuck_db_world h =
     quiet_world\<lparr>registry := [''t1'' \<mapsto> h],
                 db := Some [''t1'' \<mapsto> \<lparr>row_name = ''perform_restore'', row_user = ''alice''\<rparr>],
                 db_fault := True\<rparr>"

text \<open>The same with a database on which the lookup of a record raises.\<close>

definition dead_db_world :: "handle \<Rightarrow> world" where
  "dead_db_world h =
     quiet_world\<lparr>registry := [''t1'' \<mapsto> h],
                 db := Some [''t1'' \<mapsto> \<lparr>row_name = ''perform_restore'', row_user = ''alice''\<rparr>],
                 db_query_fault := True\<rparr>"

text \<open>A file system on which every path opens, with two bytes to read.\<close>

definition file_ready :: "pyval \<Rightarrow> string + byte list" where
  "file_ready path = Inr [0x50, 0x4B]"

text \<open>The same without a database.\<close>

definition one_task_world :: "handle \<Rightarrow> world" where
  "one_task_world h = quiet_world\<lparr>registry := [''t1'' \<mapsto> h]\<rparr>"

section \<open>Helper lemmas\<close>

lemma stream_file_not_403: "fst (stream_file w p f s) \<noteq> Abort 403 m"
  by (simp add: stream_file_def split: option.splits prod.splits pyval.splits if_splits)

subsection \<open>Decimal text of an integer, read back\<close>












subsection \<open>The length prefix, packed and unpacked\<close>

lemma unat_byte: "unat (of_nat x :: byte) = x mod 256"
  by (simp add: unat_of_nat)

lemma div_step: "(n :: nat) div (b * 256) * 256 + (n div b) mod 256 = n div b"
  by (simp add: div_mult2_eq)

lemma unpack_pack:
  assumes "n < 2 ^ 64"
  shows "unpack_Q (pack_Q n) = Some n"
proof -
  have top: "n div 256 ^ 7 < 256" using assms by (simp add: less_mult_imp_div_less)
  have a7: "(n div 256 ^ 7) mod 256 = n div 256 ^ 7" using top by simp
  have e6: "(n div 256 ^ 7) * 256 + (n div 256 ^ 6) mod 256 = n div 256 ^ 6"
    using div_step [of n "256 ^ 6"] by simp
  have e5: "(n div 256 ^ 6) * 256 + (n div 256 ^ 5) mod 256 = n div 256 ^ 5"
    using div_step [of n "256 ^ 5"] by simp
  have e4: "(n div 256 ^ 5) * 256 + (n div 256 ^ 4) mod 256 = n div 256 ^ 4"
    using div_step [of n "256 ^ 4"] by simp
  have e3: "(n div 256 ^ 4) * 256 + (n div 256 ^ 3) mod 256 = n div 256 ^ 3"
    using div_step [of n "256 ^ 3"] by simp
  have e2: "(n div 256 ^ 3) * 256 + (n div 256 ^ 2) mod 256 = n div 256 ^ 2"
    using div_step [of n "256 ^ 2"] by simp
  have e1: "(n div 256 ^ 2) * 256 + (n div 256) mod 256 = n div 256"
    using div_step [of n 256] by simp
  have e0: "(n div 256) * 256 + n mod 256 = n"
    by simp
  have "foldl (\<lambda>a b. a * 256 + unat b) 0 (pack_Q n) = n"
    unfolding pack_Q_def
    by (simp only: foldl.simps unat_byte mult_zero_left add_0 a7 e6 e5 e4 e3 e2 e1 e0)
  then show ?thesis by (simp add: unpack_Q_def pack_Q_def)
qed

lemma length_pack_Q: "length (pack_Q n) = 8"
  by (simp add: pack_Q_def)

subsection \<open>The loop of the relay\<close>
lemma payload_after_recv:
  "payload_of es = Some rest \<Longrightarrow> payload_of (after_recv n bs es) = Some (drop n bs @ rest)"
  by (simp add: after_recv_def)


lemma loop_done:
  "\<not> received < expected \<Longrightarrow>
   stream_loop bsize expected received evs closed =
     ([SendAll (pack_Q 2), SendAll [0x52, 0x45], Close], [], Completed)"
  by (subst stream_loop.simps) simp

lemma loop_nil:
  "received < expected \<Longrightarrow>
   stream_loop bsize expected received [] closed =
     (if closed then ([], [], Spin) else ([Select 5], [], Aborted 500 ''Socket timed-out''))"
  by (subst stream_loop.simps) simp

lemma loop_silent:
  "received < expected \<Longrightarrow>
   stream_loop bsize expected received (Silent # es) closed =
     ([Select 5], [], Aborted 500 ''Socket timed-out'')"
  by (subst stream_loop.simps) simp

lemma loop_empty:
  "received < expected \<Longrightarrow>
   stream_loop bsize expected received (Readable [] # es) closed =
     (case stream_loop bsize expected received es closed of
        (t, out, e) \<Rightarrow> (Select 5 # Recv bsize # t, out, e))"
  by (subst stream_loop.simps) simp

lemma loop_zero:
  "received < expected \<Longrightarrow> bs \<noteq> [] \<Longrightarrow>
   stream_loop 0 expected received (Readable bs # es) closed = ([], [], Spin)"
  by (subst stream_loop.simps) simp

lemma loop_chunk:
  "received < expected \<Longrightarrow> bs \<noteq> [] \<Longrightarrow> 0 < bsize \<Longrightarrow>
   stream_loop bsize expected received (Readable bs # es) closed =
     (case stream_loop bsize expected (received + length (take bsize bs))
             (after_recv bsize bs es) closed of
        (t, out, e) \<Rightarrow>
          (Select 5 # Recv bsize # Debug (received + length (take bsize bs)) expected # t,
           take bsize bs # out, e))"
  by (subst stream_loop.simps) simp

lemma loop_induct [case_names finished exhausted silent empty zero chunk]:
  fixes P :: "nat \<Rightarrow> nat \<Rightarrow> nat \<Rightarrow> event list \<Rightarrow> bool \<Rightarrow> bool"
  assumes d: "\<And>b e r evs c. \<not> r < e \<Longrightarrow> P b e r evs c"
    and n: "\<And>b e r c. r < e \<Longrightarrow> P b e r [] c"
    and s: "\<And>b e r es c. r < e \<Longrightarrow> P b e r (Silent # es) c"
    and em: "\<And>b e r es c. r < e \<Longrightarrow> P b e r es c \<Longrightarrow> P b e r (Readable [] # es) c"
    and z: "\<And>e r bs es c. r < e \<Longrightarrow> bs \<noteq> [] \<Longrightarrow> P 0 e r (Readable bs # es) c"
    and ch: "\<And>b e r bs es c. r < e \<Longrightarrow> bs \<noteq> [] \<Longrightarrow> 0 < b \<Longrightarrow>
              P b e (r + length (take b bs)) (after_recv b bs es) c \<Longrightarrow>
              P b e r (Readable bs # es) c"
  shows "P b e r evs c"
proof (induction b e r evs c rule: stream_loop.induct)
  case (1 bsize expected received evs closed)
  show ?case
  proof (cases "received < expected")
    case False
    then show ?thesis by (rule d)
  next
    case True
    show ?thesis
    proof (cases evs)
      case Nil
      with True show ?thesis by (simp add: n)
    next
      case (Cons ev es)
      show ?thesis
      proof (cases ev)
        case Silent
        with Cons True show ?thesis by (simp add: s)
      next
        case (Readable bs)
        show ?thesis
        proof (cases "bs = []")
          case True
          with 1(1) [OF \<open>received < expected\<close> Cons Readable] em [OF \<open>received < expected\<close>]
            Cons Readable
          show ?thesis by simp
        next
          case False
          show ?thesis
          proof (cases "bsize = 0")
            case True
            with z [OF \<open>received < expected\<close> False] Cons Readable show ?thesis by simp
          next
            case False
            then have "take bsize bs \<noteq> []" using \<open>bs \<noteq> []\<close> by (cases bs) auto
            with 1(2) [OF \<open>received < expected\<close> Cons Readable]
              ch [OF \<open>received < expected\<close> \<open>bs \<noteq> []\<close>] False Cons Readable
            show ?thesis by simp
          qed
        qed
      qed
    qed
  qed
qed

lemmas loop_simps = loop_done loop_nil loop_silent loop_empty loop_zero loop_chunk

lemma loop_waits: "waits_before_reads (fst (stream_loop bsize expected received evs closed))"
  by (induction bsize expected received evs closed rule: loop_induct)
     (auto simp: loop_simps pack_Q_def split: prod.splits)

lemma loop_recv_size:
  "Recv n \<in> set (fst (stream_loop bsize expected received evs closed)) \<Longrightarrow> n = bsize"
  by (induction bsize expected received evs closed rule: loop_induct)
     (auto simp: loop_simps split: prod.splits if_splits)

lemma loop_abort:
  "stream_loop bsize expected received evs closed = (t, out, Aborted c m) \<Longrightarrow>
     c = 500 \<and> m = ''Socket timed-out'' \<and> received + length (concat out) < expected"
  by (induction bsize expected received evs closed arbitrary: t out rule: loop_induct)
     (auto simp: loop_simps split: prod.splits if_splits)

lemma loop_relays:
  "payload_of evs = Some data \<Longrightarrow> received + length data = expected \<Longrightarrow>
   (data \<noteq> [] \<longrightarrow> 0 < bsize) \<Longrightarrow>
   stream_loop bsize expected received evs closed = (t, out, e) \<Longrightarrow>
     e = Completed \<and> concat out = data
     \<and> (\<exists>t'. t = t' @ [SendAll (pack_Q 2), SendAll [0x52, 0x45], Close] \<and> list_all reading_step t')"
proof (induction bsize expected received evs closed arbitrary: data t out e rule: loop_induct)
  case (finished b e r evs c)
  then show ?case by (auto simp: loop_simps)
next
  case (exhausted b e r c)
  then show ?case by auto
next
  case (silent b e r es c)
  then show ?case by auto
next
  case (empty b ex r es c)
  from empty.prems(4) empty.hyps obtain t1 where
    run: "stream_loop b ex r es c = (t1, out, e)" and t: "t = Select 5 # Recv b # t1"
    by (auto simp: loop_simps split: prod.splits)
  from empty.IH [OF _ empty.prems(2,3) run] empty.prems(1)
  show ?case using t by auto
next
  case (zero e r bs es c)
  then show ?case by auto
next
  case (chunk b ex r bs es c)
  from chunk.prems(1) obtain rest where rest: "payload_of es = Some rest" "data = bs @ rest"
    by auto
  from chunk.prems(4) chunk.hyps obtain t1 out1 where
    run: "stream_loop b ex (r + length (take b bs)) (after_recv b bs es) c = (t1, out1, e)"
    and t: "t = Select 5 # Recv b # Debug (r + length (take b bs)) ex # t1"
    and out: "out = take b bs # out1"
    by (auto simp: loop_simps split: prod.splits)
  have len: "r + length (take b bs) + length (drop b bs @ rest) = ex"
    using chunk.prems(2) rest by (simp add: min_def)
  from chunk.IH [OF payload_after_recv [OF rest(1)] len _ run] chunk.hyps
  have "e = Completed \<and> concat out1 = drop b bs @ rest
     \<and> (\<exists>t'. t1 = t' @ [SendAll (pack_Q 2), SendAll [0x52, 0x45], Close] \<and> list_all reading_step t')"
    by simp
  then show ?case using t out rest by auto
qed

subsection \<open>What revoking and the bookkeeping change\<close>

lemma revoke_fields [simp]:
  "registry (revoke w i) = registry w"
  "revoked (revoke w i) = revoked w @ [i]"
  "db (revoke w i) = db w"
  "db_query_fault (revoke w i) = db_query_fault w"
  "db_fault (revoke w i) = db_fault w"
  "cache (revoke w i) = cache w"
  "session_extra (revoke w i) = session_extra w"
  "open_rb (revoke w i) = open_rb w"
  "send_file_error (revoke w i) = send_file_error w"
  "get_file (revoke w i) = get_file w"
  by (simp_all add: revoke_def)

lemma drop_fields [simp]:
  "registry (drop_record w i) = registry w"
  "revoked (drop_record w i) = revoked w"
  "db_query_fault (drop_record w i) = db_query_fault w"
  "db_fault (drop_record w i) = db_fault w"
  "cache (drop_record w i) = cache w"
  "session_extra (drop_record w i) = session_extra w"
  "open_rb (drop_record w i) = open_rb w"
  "send_file_error (drop_record w i) = send_file_error w"
  "get_file (drop_record w i) = get_file w"
  by (simp_all add: drop_record_def split: option.splits)

lemma remove_file_fields [simp]:
  "registry (remove_file w p) = registry w"
  "revoked (remove_file w p) = revoked w"
  "db (remove_file w p) = db w"
  "db_query_fault (remove_file w p) = db_query_fault w"
  "cache (remove_file w p) = cache w"
  "session_extra (remove_file w p) = session_extra w"
  by (simp_all add: remove_file_def)

lemma AsyncResult_same: "registry w' = registry w \<Longrightarrow> AsyncResult w' i = AsyncResult w i"
  by (simp add: AsyncResult_def)

lemma purge_reached: "\<not> db_query_fault w \<Longrightarrow> purge_record w i = Inr (drop_record w i)"
  by (simp add: purge_record_def drop_record_def split: option.splits)


lemma db_drop:
  "db (drop_record w i) =
     (if db_fault w then db w else map_option (\<lambda>tbl. tbl(i := None)) (db w))"
  by (auto simp: drop_record_def split: option.splits)

lemma record_purged: "\<not> db_fault w \<Longrightarrow> \<not> has_record (revoke (drop_record w i) i) i"
  by (auto simp: has_record_def db_drop split: option.splits)

lemma record_kept: "db_fault w \<Longrightarrow> db (revoke (drop_record w i) i) = db w"
  by (simp add: db_drop)

subsection \<open>The branches of the handlers\<close>

lemma status_get_unknown:
  assumes "registry w task_id = None" and "task_types task_type = Some tc"
  shows "status_get w task_type task_id server = (Status ''PENDING'' None, w)"
  using assms by (cases tc) (simp add: status_get_def AsyncResult_def)

lemma fetch_unknown:
  assumes "registry w task_id = None"
  shows "task_get_file cu w task_id server =
           (Abort 400 (Some ''Task not processed yet: PENDING''), w)"
  using assms by (simp add: task_get_file_def AsyncResult_def)

text \<open>Cancelling an id that has no handle reads \<^verbatim>\<open>None.get\<close> and raises.\<close>

lemma cancel_unknown:
  assumes "registry w task_id = None" and "task_types task_type = Some tc"
  shows "status_delete cu w task_type task_id server = (Crash AttributeError, w)"
  using assms by (cases tc) (simp add: status_delete_def AsyncResult_def)

text \<open>Whatever the handle, the status query has no answer of the not-found kind.\<close>

lemma status_get_never_404: "fst (status_get w task_type task_id server) \<noteq> Abort 404 m"
  by (auto simp: status_get_def Let_def split: option.splits sum.splits)

text \<open>
  The status query of a failed task answers with the text of the whole result, whoever
  asks.
\<close>

lemma status_failure:
  assumes "state (AsyncResult w task_id) = ''FAILURE''" and "task_types task_type = Some tc"
    and "\<not> db_query_fault w"
  shows "status_get w task_type task_id server =
           (Abort 502 (Some (py_str (result (AsyncResult w task_id)))),
            revoke (drop_record w task_id) task_id)"
  using assms by (cases tc) (simp add: status_get_def Let_def purge_reached)


lemma fetch_local:
  assumes "state (AsyncResult w task_id) = ''SUCCESS''"
    and "py_get (result (AsyncResult w task_id)) ''path'' = Inr path"
    and "py_get (result (AsyncResult w task_id)) ''user'' = Inr owner"
    and "py_get (result (AsyncResult w task_id)) ''server'' = Inr origin"
    and "py_get (result (AsyncResult w task_id)) ''filename'' = Inr filename"
    and "\<not> truthy origin"
    and "PyStr (user_name cu) = owner \<or> is_admin cu"
    and "\<not> db_query_fault w"
  shows "task_get_file cu w task_id server =
     (case open_rb w path of
        Inl msg \<Rightarrow> (Abort 500 (Some msg), revoke (drop_record w task_id) task_id)
      | Inr content \<Rightarrow>
          (case send_file_error w of
             Some msg \<Rightarrow>
               (Abort 500 (Some msg), remove_file (revoke (drop_record w task_id) task_id) path)
           | None \<Rightarrow>
               (FileSent \<lparr>file_body = content, attachment_filename = filename,
                          file_mimetype = ''application/zip'',
                          file_cookies = [(''fileDownload'', ''true'')]\<rparr>,
                remove_file (revoke (drop_record w task_id) task_id) path)))"
  using assms
  by (auto simp: task_get_file_def Let_def purge_reached split: sum.splits option.splits)

section \<open>C1: the authorization guard\<close>

lemma guard_cancel:
  assumes "task_types task_type = Some tc"
    and "py_get (result (AsyncResult w task_id)) ''user'' = Inr owner"
    and "py_get (result (AsyncResult w task_id)) ''server'' = Inr origin"
  shows "fst (status_delete cu w task_type task_id server) \<noteq> Abort 403 (Some ''Unauthorized access'')
     \<longleftrightarrow> (PyStr (user_name cu) = owner \<and> (\<not> truthy origin \<or> origin = node server))
          \<or> is_admin cu"
  using assms by (cases tc) (auto simp: status_delete_def Let_def)

lemma guard_fetch:
  assumes "state (AsyncResult w task_id) = ''SUCCESS''"
    and "py_get (result (AsyncResult w task_id)) ''user'' = Inr owner"
    and "py_get (result (AsyncResult w task_id)) ''server'' = Inr origin"
  shows "fst (task_get_file cu w task_id server) \<noteq> Abort 403 (Some ''Unauthorized access'')
     \<longleftrightarrow> (PyStr (user_name cu) = owner \<and> (\<not> truthy origin \<or> origin = node server))
          \<or> is_admin cu"
proof -
  obtain kvs where r: "result (AsyncResult w task_id) = PyDict kvs"
    using assms(2) by (cases "result (AsyncResult w task_id)") auto
  show ?thesis
    using assms r
    by (auto simp: task_get_file_def Let_def stream_file_not_403 split: sum.splits option.splits)
qed

lemma guard_browse:
  assumes "state (AsyncResult w task_id) = ''SUCCESS''"
    and "py_get (result (AsyncResult w task_id)) ''user'' = Inr owner"
    and "py_get (result (AsyncResult w task_id)) ''server'' = Inr origin"
  shows "fst (task_do_browse_all cu w task_id server) \<noteq> Abort 403 (Some ''Unauthorized access'')
     \<longleftrightarrow> (PyStr (user_name cu) = owner \<and> (\<not> truthy origin \<or> origin = node server))"
proof -
  obtain kvs where r: "result (AsyncResult w task_id) = PyDict kvs"
    using assms(2) by (cases "result (AsyncResult w task_id)") auto
  show ?thesis
    using assms r
    by (auto simp: task_do_browse_all_def Let_def split: sum.splits option.splits)
qed

text \<open>
  C1, as the specification words it, fails twice. The handlers test whether the task's
  origin node is unset, not the caller's target node: the owner of a task that ran on
  \<open>agent1\<close> who names no node is refused by the cancel flow, where the predicate of the
  specification holds. And the tree-fetch flow has no administrator clause: an
  administrator who is not the owner is refused there.
\<close>

theorem C1_guard_counterexample:
  "authorized ''alice'' (PyStr ''alice'') None (PyStr ''agent1'') False
   \<and> fst (status_delete alice
        (quiet_world\<lparr>registry := [''t1'' \<mapsto>
            done_task [(''user'', PyStr ''alice''), (''server'', PyStr ''agent1'')]]\<rparr>)
        ''restore'' ''t1'' None) = Abort 403 (Some ''Unauthorized access'')
   \<and> authorized ''root'' (PyStr ''alice'') None PyNone True
   \<and> fst (task_do_browse_all root
        (quiet_world\<lparr>registry := [''t2'' \<mapsto>
            done_task [(''user'', PyStr ''alice''), (''tree'', PyList [])]]\<rparr>)
        ''t2'' None) = Abort 403 (Some ''Unauthorized access'')"
  by (simp add: authorized_def status_delete_def task_do_browse_all_def task_types_def
      AsyncResult_def quiet_world_def done_task_def alice_def root_def)

text \<open>
  C1, amended: with \<open>owner\<close> and \<open>origin\<close> the user and the server recorded in the task's
  result, the cancel flow and the artifact-fetch flow let the caller through iff the
  caller is the owner and the origin node is unset (falsy) or equals the node of the
  request, or the caller is an administrator; for a caller who is not an administrator
  the tree-fetch flow decides the same.
\<close>

theorem C1_guard_in_flows:
  assumes "task_types task_type = Some tc"
    and "py_get (result (AsyncResult w task_id)) ''user'' = Inr owner"
    and "py_get (result (AsyncResult w task_id)) ''server'' = Inr origin"
  shows "(fst (status_delete cu w task_type task_id server)
            \<noteq> Abort 403 (Some ''Unauthorized access'')
          \<longleftrightarrow> (PyStr (user_name cu) = owner \<and> (\<not> truthy origin \<or> origin = node server))
               \<or> is_admin cu)
       \<and> (state (AsyncResult w task_id) = ''SUCCESS'' \<longrightarrow>
            (fst (task_get_file cu w task_id server)
               \<noteq> Abort 403 (Some ''Unauthorized access'')
             \<longleftrightarrow> (PyStr (user_name cu) = owner \<and> (\<not> truthy origin \<or> origin = node server))
                  \<or> is_admin cu)
          \<and> (\<not> is_admin cu \<longrightarrow>
               (fst (task_do_browse_all cu w task_id server)
                  \<noteq> Abort 403 (Some ''Unauthorized access'')
                \<longleftrightarrow> (PyStr (user_name cu) = owner
                       \<and> (\<not> truthy origin \<or> origin = node server)))))"
  using guard_cancel [OF assms] guard_fetch [OF _ assms(2,3)] guard_browse [OF _ assms(2,3)]
  by blast

theorem C1_guard_in_flows_witness:
  "task_types ''restore'' = Some (''perform_restore'', ''.task_get_file'')
   \<and> fst (status_delete alice
        (quiet_world\<lparr>registry := [''t1'' \<mapsto>
            done_task [(''user'', PyStr ''alice''), (''server'', PyStr ''agent1'')]]\<rparr>)
        ''restore'' ''t1'' (Some ''agent1'')) \<noteq> Abort 403 (Some ''Unauthorized access'')
   \<and> fst (task_do_browse_all alice
        (quiet_world\<lparr>registry := [''t1'' \<mapsto>
            done_task [(''user'', PyStr ''alice''), (''server'', PyStr ''agent1'')]]\<rparr>)
        ''t1'' (Some ''agent1'')) \<noteq> Abort 403 (Some ''Unauthorized access'')"
proof -
  let ?w = "quiet_world\<lparr>registry := [''t1'' \<mapsto>
            done_task [(''user'', PyStr ''alice''), (''server'', PyStr ''agent1'')]]\<rparr>"
  have t: "task_types ''restore'' = Some (''perform_restore'', ''.task_get_file'')"
    by (simp add: task_types_def)
  have u: "py_get (result (AsyncResult ?w ''t1'')) ''user'' = Inr (PyStr ''alice'')"
    by (simp add: AsyncResult_def done_task_def)
  have s: "py_get (result (AsyncResult ?w ''t1'')) ''server'' = Inr (PyStr ''agent1'')"
    by (simp add: AsyncResult_def done_task_def)
  have st: "state (AsyncResult ?w ''t1'') = ''SUCCESS''"
    by (simp add: AsyncResult_def done_task_def)
  from C1_guard_in_flows [OF t u s, of alice "Some ''agent1''"] st t
  show ?thesis by (simp add: alice_def)
qed

section \<open>C2: ids that were never submitted\<close>

text \<open>
  C2, as the specification words it, fails: an id without a handle is reported like a
  queued task, so the status query answers 200 with the state PENDING, and cancelling it
  raises \<^verbatim>\<open>AttributeError\<close>.
\<close>

theorem C2_unknown_id_counterexample:
  "registry quiet_world ''nope'' = None
   \<and> fst (status_get quiet_world ''restore'' ''nope'' None) = Status ''PENDING'' None
   \<and> fst (status_delete alice quiet_world ''restore'' ''nope'' None) = Crash AttributeError"
  by (simp add: quiet_world_def status_get_def status_delete_def task_types_def AsyncResult_def)

text \<open>
  C2, amended: for a task id without a handle, the status query of a known task type
  answers 200 with the state PENDING and the artifact fetch answers 400
  \<^verbatim>\<open>Task not processed yet: PENDING\<close>; neither raises and neither changes anything.
\<close>

theorem C2_unknown_id:
  assumes "registry w task_id = None" and "task_types task_type = Some tc"
  shows "status_get w task_type task_id server = (Status ''PENDING'' None, w)
     \<and> task_get_file cu w task_id server' =
         (Abort 400 (Some ''Task not processed yet: PENDING''), w)"
  using status_get_unknown [OF assms] fetch_unknown [OF assms(1)] by simp

theorem C2_unknown_id_witness:
  "registry quiet_world ''nope'' = None
   \<and> task_types ''browse'' = Some (''load_all_tree'', ''.task_do_browse_all'')
   \<and> status_get quiet_world ''browse'' ''nope'' None = (Status ''PENDING'' None, quiet_world)
   \<and> task_get_file alice quiet_world ''nope'' None =
         (Abort 400 (Some ''Task not processed yet: PENDING''), quiet_world)"
proof -
  have r: "registry quiet_world ''nope'' = None" by (simp add: quiet_world_def)
  have t: "task_types ''browse'' = Some (''load_all_tree'', ''.task_do_browse_all'')"
    by (simp add: task_types_def)
  from C2_unknown_id [OF r t, of None alice None] r t show ?thesis by simp
qed

section \<open>C3: the relay of a complete transfer\<close>

lemma pack_Q_2: "pack_Q 2 = [0, 0, 0, 0, 0, 0, 0, 2]"
  by (simp add: pack_Q_def)

lemma stream_relays:
  assumes "payload_of evs = Some data" and "length data = expected"
    and "stream evs closed expected = (t, out, e)"
  shows "e = Completed \<and> concat out = data
     \<and> (\<exists>t'. t = t' @ [SendAll (pack_Q 2), SendAll [0x52, 0x45], Close] \<and> list_all reading_step t')"
proof -
  have "data \<noteq> [] \<longrightarrow> 0 < (if expected < 1024 then expected else 1024)"
    using assms(2) by auto
  with loop_relays [of evs data 0 expected "if expected < 1024 then expected else 1024" closed t out e]
    assms
  show ?thesis by (simp add: stream_def Let_def)
qed

text \<open>
  C3, as the specification words it, fails for two senders that do send an eight-byte
  prefix and then exactly that many bytes. The length is read with a single
  \<^verbatim>\<open>recv(8)\<close>: when the prefix for 2 bytes arrives in two pieces of four bytes,
  unpacking the first piece raises \<^verbatim>\<open>struct.error\<close>. And when the sender pauses for a
  wait of 5 seconds between the prefix and the payload, the transfer ends in the error
  500 with no byte relayed and no acknowledgment sent.
\<close>

theorem C3_relay_counterexample:
  "fst (stream_file (relay_world [Readable [0, 0, 0, 0], Readable [0, 0, 0, 2, 7, 7]] False)
          (PyStr ''/tmp/a.zip'') (PyStr ''a.zip'') (PyStr ''agent1'')) = Crash StructError
   \<and> stream_file (relay_world [Readable [0, 0, 0, 0, 0, 0, 0, 2], Silent, Readable [7, 7]] False)
          (PyStr ''/tmp/a.zip'') (PyStr ''a.zip'') (PyStr ''agent1'') =
       (Streamed \<lparr>content_length = 2, disposition_filename = ''a.zip'',
                  stream_mimetype = ''application/zip'',
                  stream_cookies = [(''fileDownload'', ''true'')],
                  chunks = [], ending = Aborted 500 ''Socket timed-out''\<rparr>,
        (relay_world [Readable [0, 0, 0, 0, 0, 0, 0, 2], Silent, Readable [7, 7]] False)
          \<lparr>sock_trace := [Recv 8, Select 5]\<rparr>)"
  by (simp add: stream_file_def relay_world_def quiet_world_def unpack_Q_def after_recv_def
      stream_def stream_loop.simps)

text \<open>
  C3, amended: when the first read returns the whole prefix, the eight bytes of the
  big-endian unsigned length \<open>n\<close>, and the sender goes on to deliver exactly \<open>n\<close> bytes
  with no wait of 5 seconds passing without data, a request for a file whose name has no
  line break is answered with \<^verbatim>\<open>Content-Length\<close> \<open>n\<close> and a body whose chunks are exactly
  those \<open>n\<close> bytes; after the last byte, and not before, the handler sends the eight
  bytes of the big-endian value 2 and the two bytes \<^verbatim>\<open>RE\<close> and closes the connection.
\<close>

theorem C3_relay_complete:
  assumes "get_file w path server = Some socket"
    and "events socket = Readable (pack_Q n @ first) # es"
    and "n < 2 ^ 64"
    and "payload_of es = Some rest"
    and "length (first @ rest) = n"
    and "CHR 0x0A \<notin> set f" and "CHR 0x0D \<notin> set f"
  shows "\<exists>out t'.
      stream_file w path (PyStr f) server =
        (Streamed \<lparr>content_length = n, disposition_filename = f,
                   stream_mimetype = ''application/zip'',
                   stream_cookies = [(''fileDownload'', ''true'')],
                   chunks = out, ending = Completed\<rparr>,
         w\<lparr>sock_trace :=
             Recv 8 # t' @ [SendAll [0, 0, 0, 0, 0, 0, 0, 2], SendAll [0x52, 0x45], Close]\<rparr>)
      \<and> concat out = first @ rest \<and> length (concat out) = n \<and> list_all reading_step t'"
proof -
  let ?prefix = "pack_Q n"
  have len: "length ?prefix = 8" by (rule length_pack_Q)
  have un: "unpack_Q ?prefix = Some n" using assms(3) by (rule unpack_pack)
  let ?es = "after_recv 8 (?prefix @ first) es"
  have rb: "recv_blocking 8 (events socket) (peer_closed socket) = Some (?prefix, ?es)"
    using assms(2) len by simp
  have pl: "payload_of ?es = Some (first @ rest)"
    using payload_after_recv [OF assms(4), of 8 "?prefix @ first"] len by simp
  obtain t out e where run: "stream ?es (peer_closed socket) n = (t, out, e)"
    by (cases "stream ?es (peer_closed socket) n") auto
  from stream_relays [OF pl assms(5) run] obtain t' where
    e: "e = Completed" and out: "concat out = first @ rest"
    and t: "t = t' @ [SendAll (pack_Q 2), SendAll [0x52, 0x45], Close]"
    and rs: "list_all reading_step t'"
    by auto
  have "stream_file w path (PyStr f) server =
        (Streamed \<lparr>content_length = n, disposition_filename = f,
                   stream_mimetype = ''application/zip'',
                   stream_cookies = [(''fileDownload'', ''true'')],
                   chunks = out, ending = Completed\<rparr>,
         w\<lparr>sock_trace :=
             Recv 8 # t' @ [SendAll [0, 0, 0, 0, 0, 0, 0, 2], SendAll [0x52, 0x45], Close]\<rparr>)"
    using assms(1,6,7) un rb run e t by (simp add: stream_file_def pack_Q_2)
  with out rs assms(5) show ?thesis by auto
qed

theorem C3_relay_complete_witness:
  "get_file (relay_world [Readable ([0, 0, 0, 0, 0, 0, 4, 0] @ replicate 24 7),
                          Readable (replicate 1000 7)] False)
      (PyStr ''/tmp/a.zip'') (PyStr ''agent1'')
     = Some \<lparr>events = [Readable ([0, 0, 0, 0, 0, 0, 4, 0] @ replicate 24 7),
                         Readable (replicate 1000 7)], peer_closed = False\<rparr>
   \<and> pack_Q 1024 = [0, 0, 0, 0, 0, 0, 4, 0]
   \<and> (1024 :: nat) < 2 ^ 64
   \<and> payload_of [Readable (replicate 1000 7)] = Some (replicate 1000 7)
   \<and> length (replicate 24 (7 :: byte) @ replicate 1000 7) = 1024
   \<and> CHR 0x0A \<notin> set ''a.zip'' \<and> CHR 0x0D \<notin> set ''a.zip''
   \<and> (\<exists>out t'.
      stream_file (relay_world [Readable ([0, 0, 0, 0, 0, 0, 4, 0] @ replicate 24 7),
                                Readable (replicate 1000 7)] False)
          (PyStr ''/tmp/a.zip'') (PyStr ''a.zip'') (PyStr ''agent1'') =
        (Streamed \<lparr>content_length = 1024, disposition_filename = ''a.zip'',
                   stream_mimetype = ''application/zip'',
                   stream_cookies = [(''fileDownload'', ''true'')],
                   chunks = out, ending = Completed\<rparr>,
         (relay_world [Readable ([0, 0, 0, 0, 0, 0, 4, 0] @ replicate 24 7),
                       Readable (replicate 1000 7)] False)\<lparr>sock_trace :=
             Recv 8 # t' @ [SendAll [0, 0, 0, 0, 0, 0, 0, 2], SendAll [0x52, 0x45], Close]\<rparr>)
      \<and> concat out = replicate 24 7 @ replicate 1000 7 \<and> length (concat out) = 1024
      \<and> list_all reading_step t')"
proof -
  let ?evs = "[Readable ([0, 0, 0, 0, 0, 0, 4, 0] @ replicate 24 (7 :: byte)),
               Readable (replicate 1000 7)]"
  let ?sock = "\<lparr>events = ?evs, peer_closed = False\<rparr>"
  have g: "get_file (relay_world ?evs False) (PyStr ''/tmp/a.zip'') (PyStr ''agent1'') = Some ?sock"
    by (simp add: relay_world_def quiet_world_def)
  have pk: "pack_Q 1024 = [0, 0, 0, 0, 0, 0, 4, 0]"
    by (simp add: pack_Q_def)
  have ev: "events ?sock = Readable (pack_Q 1024 @ replicate 24 7)
              # [Readable (replicate 1000 7)]"
    by (simp add: pk)
  have b: "(1024 :: nat) < 2 ^ 64" by simp
  have p: "payload_of [Readable (replicate 1000 (7 :: byte))] = Some (replicate 1000 7)"
    by simp
  have l: "length (replicate 24 (7 :: byte) @ replicate 1000 7) = 1024"
    by simp
  have f: "CHR 0x0A \<notin> set ''a.zip''" "CHR 0x0D \<notin> set ''a.zip''"
    by simp_all
  from C3_relay_complete [OF g ev b p l f] g pk b p l f
  show ?thesis by blast
qed

section \<open>C4: the size of a read\<close>

text \<open>
  C4, as the specification words it, fails: the chunk size is fixed before the loop. With
  1500 bytes announced and pending, the first read takes 1024 bytes and the second asks
  for 1024 again while 476 are still expected.
\<close>

theorem C4_read_size_counterexample:
  "fst (stream [Readable (replicate 1500 0)] False 1500) =
     [Select 5, Recv 1024, Debug 1024 1500, Select 5, Recv 1024, Debug 1500 1500,
      SendAll [0, 0, 0, 0, 0, 0, 0, 2], SendAll [0x52, 0x45], Close]
   \<and> \<not> reads_within_remaining 1500 0 (fst (stream [Readable (replicate 1500 0)] False 1500))"
  by (simp add: stream_def stream_loop.simps after_recv_def pack_Q_def)

text \<open>
  C4, amended: every read of the loop asks for the same number of bytes, the smaller of
  1024 and the announced length; so no read asks for more than 1024 bytes or for more
  than the announced length.
\<close>

theorem C4_read_size:
  "Recv n \<in> set (fst (stream evs closed expected)) \<Longrightarrow>
     n = min 1024 expected \<and> n \<le> 1024 \<and> n \<le> expected"
  using loop_recv_size [of n "if expected < 1024 then expected else 1024" expected 0 evs closed]
  by (auto simp: stream_def Let_def split: if_splits)

theorem C4_read_size_witness:
  "Recv 1024 \<in> set (fst (stream [Readable (replicate 1500 0)] False 1500))
   \<and> (1024 :: nat) = min 1024 1500 \<and> (1024 :: nat) \<le> 1024 \<and> (1024 :: nat) \<le> 1500"
proof -
  have m: "Recv 1024 \<in> set (fst (stream [Readable (replicate 1500 0)] False 1500))"
    by (simp add: stream_def stream_loop.simps after_recv_def pack_Q_def)
  from C4_read_size [OF m] m show ?thesis by blast
qed

section \<open>C5: stalls\<close>

text \<open>
  C5, as the specification words it, fails: the generator has yielded its chunks to the
  server before it meets the stall. With 4 bytes announced, 2 delivered and then
  silence, the response carries \<^verbatim>\<open>Content-Length\<close> 4 and a body of 2 bytes, and ends in
  the error 500.
\<close>

theorem C5_stall_counterexample:
  "fst (stream_file (relay_world [Readable [0, 0, 0, 0, 0, 0, 0, 4, 1, 2], Silent] False)
          (PyStr ''/tmp/a.zip'') (PyStr ''a.zip'') (PyStr ''agent1'')) =
     Streamed \<lparr>content_length = 4, disposition_filename = ''a.zip'',
               stream_mimetype = ''application/zip'',
               stream_cookies = [(''fileDownload'', ''true'')],
               chunks = [[1, 2]], ending = Aborted 500 ''Socket timed-out''\<rparr>"
  by (simp add: stream_file_def relay_world_def quiet_world_def unpack_Q_def after_recv_def
      stream_def stream_loop.simps)

text \<open>
  C5, amended: in the loop every read comes right after a wait of 5 seconds on the
  socket; a wait that ends without data ends the transfer at once, without a retry, with
  the error 500 \<^verbatim>\<open>Socket timed-out\<close>; and whenever the transfer ends in that error the
  bytes already handed to the caller are fewer than the announced \<^verbatim>\<open>Content-Length\<close>.
\<close>

theorem C5_stall:
  "waits_before_reads (fst (stream evs closed expected))
   \<and> (received < expected \<longrightarrow>
        stream_loop bsize expected received (Silent # es) closed =
          ([Select 5], [], Aborted 500 ''Socket timed-out''))
   \<and> (stream evs closed expected = (t, out, Aborted c m) \<longrightarrow>
        c = 500 \<and> m = ''Socket timed-out'' \<and> length (concat out) < expected)"
  using loop_waits [of "if expected < 1024 then expected else 1024" expected 0 evs closed]
    loop_abort [of "if expected < 1024 then expected else 1024" expected 0 evs closed t out c m]
  by (simp add: stream_def Let_def loop_silent)

theorem C5_stall_witness:
  "(2 :: nat) < 4
   \<and> stream_loop 4 4 2 [Silent] False = ([Select 5], [], Aborted 500 ''Socket timed-out'')
   \<and> stream [Readable [1, 2], Silent] False 4 =
       ([Select 5, Recv 4, Debug 2 4, Select 5], [[1, 2]], Aborted 500 ''Socket timed-out'')
   \<and> length (concat [[1, 2 :: byte]]) < 4
   \<and> waits_before_reads (fst (stream [Readable [1, 2], Silent] False 4))"
proof -
  have r: "stream [Readable [1, 2], Silent] False 4 =
       ([Select 5, Recv 4, Debug 2 4, Select 5], [[1, 2]], Aborted 500 ''Socket timed-out'')"
    by (simp add: stream_def stream_loop.simps after_recv_def)
  have l: "(2 :: nat) < 4" by simp
  from C5_stall [of "[Readable [1, 2], Silent]" False 4 2 4 "[]"
      "[Select 5, Recv 4, Debug 2 4, Select 5]" "[[1, 2]]" 500 "''Socket timed-out''"] r l
  show ?thesis by simp
qed

section \<open>C6: the status of a failed task\<close>

text \<open>
  C6, as the specification words it, fails. The removal of the durable record is guarded
  by \<^verbatim>\<open>try\<close> and rolled back when it raises: on a database that refuses the delete, the
  status query of the failed task \<open>t1\<close> answers 502 and the record is still there. And the
  lookup of the record is made before the \<^verbatim>\<open>try\<close>: on a database that refuses the query,
  the exception leaves the handler, the handle is not revoked and no 502 is sent.
\<close>

theorem C6_failure_status_counterexample:
  "fst (status_get
          (stuck_db_world (failed_task (PyDict [(''error'', PyStr ''disk full''),
                                                (''admin'', PyBool False)])))
          ''restore'' ''t1'' None)
     = Abort 502 (Some (''{'' @ quoted ''error'' @ '': '' @ quoted ''disk full'' @ '', ''
                          @ quoted ''admin'' @ '': False}''))
   \<and> has_record
        (snd (status_get
          (stuck_db_world (failed_task (PyDict [(''error'', PyStr ''disk full''),
                                                (''admin'', PyBool False)])))
          ''restore'' ''t1'' None)) ''t1''
   \<and> fst (status_get
          (dead_db_world (failed_task (PyDict [(''error'', PyStr ''disk full''),
                                               (''admin'', PyBool False)])))
          ''restore'' ''t1'' None) = Crash SQLAlchemyError
   \<and> revoked
        (snd (status_get
          (dead_db_world (failed_task (PyDict [(''error'', PyStr ''disk full''),
                                               (''admin'', PyBool False)])))
          ''restore'' ''t1'' None)) = []"
  by (simp add: status_get_def stuck_db_world_def dead_db_world_def quiet_world_def
      failed_task_def task_types_def AsyncResult_def revoke_def purge_record_def
      drop_record_def has_record_def repr_str_def esc_char_def quoted_def Let_def)

text \<open>
  C6, amended: for a task whose state is FAILURE, when the lookup of the durable record
  does not raise, the status query of a known task type revokes the handle and answers
  502 with \<^verbatim>\<open>str\<close> of the task's result; it removes the durable record of the id unless
  deleting it raises, in which case the deletion is rolled back and the table is as
  before.
\<close>

theorem C6_failure_status:
  assumes "state (AsyncResult w task_id) = ''FAILURE''" and "task_types task_type = Some tc"
    and "\<not> db_query_fault w"
  shows "fst (status_get w task_type task_id server) =
           Abort 502 (Some (py_str (result (AsyncResult w task_id))))
     \<and> revoked (snd (status_get w task_type task_id server)) = revoked w @ [task_id]
     \<and> (\<not> db_fault w \<longrightarrow> \<not> has_record (snd (status_get w task_type task_id server)) task_id)
     \<and> (db_fault w \<longrightarrow> db (snd (status_get w task_type task_id server)) = db w)"
  using status_failure [OF assms] record_purged [of w task_id] record_kept [of w task_id]
  by simp

theorem C6_failure_status_witness:
  "state (AsyncResult (one_task_world (failed_task (PyDict [(''error'', PyStr ''disk full'')]))
            \<lparr>db := Some [''t1'' \<mapsto> \<lparr>row_name = ''perform_restore'', row_user = ''alice''\<rparr>]\<rparr>)
          ''t1'') = ''FAILURE''
   \<and> task_types ''restore'' = Some (''perform_restore'', ''.task_get_file'')
   \<and> \<not> db_query_fault (one_task_world (failed_task (PyDict [(''error'', PyStr ''disk full'')]))
            \<lparr>db := Some [''t1'' \<mapsto> \<lparr>row_name = ''perform_restore'', row_user = ''alice''\<rparr>]\<rparr>)
   \<and> fst (status_get (one_task_world (failed_task (PyDict [(''error'', PyStr ''disk full'')]))
            \<lparr>db := Some [''t1'' \<mapsto> \<lparr>row_name = ''perform_restore'', row_user = ''alice''\<rparr>]\<rparr>)
          ''restore'' ''t1'' None)
       = Abort 502 (Some (''{'' @ quoted ''error'' @ '': '' @ quoted ''disk full'' @ ''}''))
   \<and> \<not> has_record
        (snd (status_get (one_task_world (failed_task (PyDict [(''error'', PyStr ''disk full'')]))
            \<lparr>db := Some [''t1'' \<mapsto> \<lparr>row_name = ''perform_restore'', row_user = ''alice''\<rparr>]\<rparr>)
          ''restore'' ''t1'' None)) ''t1''
   \<and> revoked
        (snd (status_get (one_task_world (failed_task (PyDict [(''error'', PyStr ''disk full'')]))
            \<lparr>db := Some [''t1'' \<mapsto> \<lparr>row_name = ''perform_restore'', row_user = ''alice''\<rparr>]\<rparr>)
          ''restore'' ''t1'' None)) = [''t1'']"
proof -
  let ?w = "one_task_world (failed_task (PyDict [(''error'', PyStr ''disk full'')]))
            \<lparr>db := Some [''t1'' \<mapsto> \<lparr>row_name = ''perform_restore'', row_user = ''alice''\<rparr>]\<rparr>"
  have s: "state (AsyncResult ?w ''t1'') = ''FAILURE''"
    by (simp add: AsyncResult_def one_task_world_def failed_task_def)
  have r: "result (AsyncResult ?w ''t1'') = PyDict [(''error'', PyStr ''disk full'')]"
    by (simp add: AsyncResult_def one_task_world_def failed_task_def)
  have p: "py_str (PyDict [(''error'', PyStr ''disk full'')])
             = ''{'' @ quoted ''error'' @ '': '' @ quoted ''disk full'' @ ''}''"
    by (simp add: repr_str_def esc_char_def quoted_def Let_def)
  have t: "task_types ''restore'' = Some (''perform_restore'', ''.task_get_file'')"
    by (simp add: task_types_def)
  have q: "\<not> db_query_fault ?w"
    by (simp add: one_task_world_def quiet_world_def)
  have f: "\<not> db_fault ?w" "revoked ?w = []"
    by (simp_all add: one_task_world_def quiet_world_def)
  from C6_failure_status [OF s t q, of None] s t q r p f show ?thesis by simp
qed

section \<open>C7: the status of a successful task\<close>

text \<open>
  C7: for a task whose state is SUCCESS and whose result is a non-empty map, the status
  query of a known task type changes nothing, so it does not revoke the handle, and
  answers with the state and the location built from the endpoint of the task type, the
  task id and the server recorded in the result; when the result is empty or missing it
  answers 500, again changing nothing.
\<close>

theorem C7_success_status:
  assumes "state (AsyncResult w task_id) = ''SUCCESS''"
    and "task_types task_type = Some (job, callback)"
  shows "(truthy (result (AsyncResult w task_id)) \<longrightarrow>
            py_get (result (AsyncResult w task_id)) ''server'' = Inr origin \<longrightarrow>
            status_get w task_type task_id server =
              (Status ''SUCCESS'' (Some (UrlFor callback task_id origin)), w))
       \<and> (\<not> truthy (result (AsyncResult w task_id)) \<longrightarrow>
            status_get w task_type task_id server =
              (Abort 500 (Some ''The task did not return anything''), w))"
  using assms by (simp add: status_get_def Let_def)

theorem C7_success_status_witness:
  "state (AsyncResult (one_task_world (done_task [(''user'', PyStr ''alice''),
            (''server'', PyStr ''agent1'')])) ''t1'') = ''SUCCESS''
   \<and> task_types ''restore'' = Some (''perform_restore'', ''.task_get_file'')
   \<and> status_get (one_task_world (done_task [(''user'', PyStr ''alice''),
            (''server'', PyStr ''agent1'')])) ''restore'' ''t1'' None =
       (Status ''SUCCESS'' (Some (UrlFor ''.task_get_file'' ''t1'' (PyStr ''agent1''))),
        one_task_world (done_task [(''user'', PyStr ''alice''), (''server'', PyStr ''agent1'')]))
   \<and> state (AsyncResult (one_task_world (done_task [])) ''t1'') = ''SUCCESS''
   \<and> status_get (one_task_world (done_task [])) ''restore'' ''t1'' None =
       (Abort 500 (Some ''The task did not return anything''), one_task_world (done_task []))"
proof -
  let ?w = "one_task_world (done_task [(''user'', PyStr ''alice''), (''server'', PyStr ''agent1'')])"
  let ?v = "one_task_world (done_task [])"
  have s: "state (AsyncResult ?w ''t1'') = ''SUCCESS''" "state (AsyncResult ?v ''t1'') = ''SUCCESS''"
    by (simp_all add: AsyncResult_def one_task_world_def done_task_def)
  have r: "result (AsyncResult ?w ''t1'')
             = PyDict [(''user'', PyStr ''alice''), (''server'', PyStr ''agent1'')]"
    "result (AsyncResult ?v ''t1'') = PyDict []"
    by (simp_all add: AsyncResult_def one_task_world_def done_task_def)
  have t: "task_types ''restore'' = Some (''perform_restore'', ''.task_get_file'')"
    by (simp add: task_types_def)
  from C7_success_status [OF s(1) t, of "PyStr ''agent1''" None]
    C7_success_status [OF s(2) t, of PyNone None] s t r
  show ?thesis by simp
qed

section \<open>C8: what a failed task tells the caller\<close>




section \<open>C9: the cache and the counter of the session\<close>







section \<open>C10: the local fetch changes the state before it opens the file\<close>

text \<open>
  C10, as it is worded, fails in two points. The removal of the durable record is guarded
  by \<^verbatim>\<open>try\<close> and rolled back when it raises: on a database that refuses the delete, the
  fetch of the task \<open>t1\<close>, whose archive cannot be opened, answers 500 and the record is
  still there. And revoking does not take the result away: after a fetch that failed on
  a file that could not be opened, the task still reads SUCCESS, and once the file can
  be opened a second fetch delivers it.
\<close>

theorem C10_local_fetch_counterexample:
  "fst (task_get_file alice
          (stuck_db_world (done_task [(''path'', PyStr ''/tmp/gone.zip''),
             (''user'', PyStr ''alice''), (''filename'', PyStr ''a.zip'')])) ''t1'' None)
     = Abort 500 (Some (enoent (PyStr ''/tmp/gone.zip'')))
   \<and> has_record
        (snd (task_get_file alice
          (stuck_db_world (done_task [(''path'', PyStr ''/tmp/gone.zip''),
             (''user'', PyStr ''alice''), (''filename'', PyStr ''a.zip'')])) ''t1'' None)) ''t1''
   \<and> fst (task_get_file alice
          (one_task_world (done_task [(''path'', PyStr ''/tmp/gone.zip''),
             (''user'', PyStr ''alice''), (''filename'', PyStr ''a.zip'')])) ''t1'' None)
     = Abort 500 (Some (enoent (PyStr ''/tmp/gone.zip'')))
   \<and> fst (task_get_file alice
          ((snd (task_get_file alice
             (one_task_world (done_task [(''path'', PyStr ''/tmp/gone.zip''),
                (''user'', PyStr ''alice''), (''filename'', PyStr ''a.zip'')])) ''t1'' None))
           \<lparr>open_rb := file_ready\<rparr>) ''t1'' None)
     = FileSent \<lparr>file_body = [0x50, 0x4B], attachment_filename = PyStr ''a.zip'',
                 file_mimetype = ''application/zip'',
                 file_cookies = [(''fileDownload'', ''true'')]\<rparr>"
  by (simp add: task_get_file_def stuck_db_world_def one_task_world_def quiet_world_def
      done_task_def AsyncResult_def alice_def revoke_def purge_record_def drop_record_def
      has_record_def file_ready_def)

text \<open>
  C10, amended: in the local mode, once the authorization check has passed and when the
  lookup of the durable record does not raise, the handle is revoked and the removal of
  the record is attempted before the file is opened; the record is gone unless deleting
  it raised, in which case the table is as before. So when opening the file or preparing
  the response fails and 500 is returned, the handle is already revoked and the state is
  not the one before the request. The task still reads SUCCESS afterwards: a second
  fetch by the same caller takes the same path and, while the file cannot be opened, is
  answered 500 again.
\<close>

theorem C10_local_fetch:
  assumes "state (AsyncResult w task_id) = ''SUCCESS''"
    and "py_get (result (AsyncResult w task_id)) ''path'' = Inr path"
    and "py_get (result (AsyncResult w task_id)) ''user'' = Inr owner"
    and "py_get (result (AsyncResult w task_id)) ''server'' = Inr origin"
    and "py_get (result (AsyncResult w task_id)) ''filename'' = Inr filename"
    and "\<not> truthy origin"
    and "PyStr (user_name cu) = owner \<or> is_admin cu"
    and "\<not> db_query_fault w"
  shows "revoked (snd (task_get_file cu w task_id server)) = revoked w @ [task_id]
     \<and> (\<not> db_fault w \<longrightarrow> \<not> has_record (snd (task_get_file cu w task_id server)) task_id)
     \<and> (db_fault w \<longrightarrow> db (snd (task_get_file cu w task_id server)) = db w)
     \<and> (open_rb w path = Inl msg \<longrightarrow>
          fst (task_get_file cu w task_id server) = Abort 500 (Some msg))
     \<and> (open_rb w path = Inr content \<longrightarrow> send_file_error w = Some msg \<longrightarrow>
          fst (task_get_file cu w task_id server) = Abort 500 (Some msg))
     \<and> snd (task_get_file cu w task_id server) \<noteq> w
     \<and> state (AsyncResult (snd (task_get_file cu w task_id server)) task_id) = ''SUCCESS''
     \<and> (open_rb w path = Inl msg \<longrightarrow>
          fst (task_get_file cu (snd (task_get_file cu w task_id server)) task_id server)
            = Abort 500 (Some msg))"
proof -
  let ?w2 = "revoke (drop_record w task_id) task_id"
  let ?r = "task_get_file cu w task_id server"
  note run = fetch_local [OF assms]
  have w': "snd ?r = ?w2 \<or> snd ?r = remove_file ?w2 path"
    unfolding run by (auto split: sum.splits option.splits)
  have rev: "revoked (snd ?r) = revoked w @ [task_id]"
    using w' by auto
  have dbe: "db (snd ?r) = db ?w2"
    using w' by auto
  have rec: "\<not> db_fault w \<longrightarrow> \<not> has_record (snd ?r) task_id"
    using record_purged [of w task_id] dbe by (simp add: has_record_def)
  have kept: "db_fault w \<longrightarrow> db (snd ?r) = db w"
    using record_kept [of w task_id] dbe by simp
  have changed: "snd ?r \<noteq> w"
  proof
    assume "snd ?r = w"
    then have "revoked (snd ?r) = revoked w" by simp
    with rev show False by simp
  qed
  have o1: "open_rb w path = Inl msg \<longrightarrow> fst ?r = Abort 500 (Some msg)"
    unfolding run by simp
  have o2: "open_rb w path = Inr content \<longrightarrow> send_file_error w = Some msg \<longrightarrow>
              fst ?r = Abort 500 (Some msg)"
    unfolding run by simp
  have reg: "registry (snd ?r) = registry w"
    using w' by auto
  have same: "AsyncResult (snd ?r) task_id = AsyncResult w task_id"
    using reg by (rule AsyncResult_same)
  have still: "state (AsyncResult (snd ?r) task_id) = ''SUCCESS''"
    using same assms(1) by simp
  have again: "open_rb w path = Inl msg \<longrightarrow>
                 fst (task_get_file cu (snd ?r) task_id server) = Abort 500 (Some msg)"
  proof
    assume op: "open_rb w path = Inl msg"
    then have sw: "snd ?r = ?w2" unfolding run by simp
    have a2: "AsyncResult ?w2 task_id = AsyncResult w task_id"
      by (rule AsyncResult_same) simp
    have q2: "\<not> db_query_fault ?w2" using assms(8) by simp
    have "task_get_file cu ?w2 task_id server =
            (Abort 500 (Some msg), revoke (drop_record ?w2 task_id) task_id)"
      using fetch_local [of ?w2 task_id path owner origin filename cu server]
        assms(1-7) a2 q2 op
      by simp
    with sw show "fst (task_get_file cu (snd ?r) task_id server) = Abort 500 (Some msg)"
      by simp
  qed
  from rev rec kept o1 o2 changed still again show ?thesis by blast
qed

theorem C10_local_fetch_witness:
  "state (AsyncResult (one_task_world (done_task [(''path'', PyStr ''/tmp/gone.zip''),
             (''user'', PyStr ''alice''), (''filename'', PyStr ''a.zip'')])) ''t1'') = ''SUCCESS''
   \<and> \<not> truthy PyNone
   \<and> \<not> db_query_fault (one_task_world (done_task [(''path'', PyStr ''/tmp/gone.zip''),
             (''user'', PyStr ''alice''), (''filename'', PyStr ''a.zip'')]))
   \<and> open_rb (one_task_world (done_task [(''path'', PyStr ''/tmp/gone.zip''),
             (''user'', PyStr ''alice''), (''filename'', PyStr ''a.zip'')]))
        (PyStr ''/tmp/gone.zip'') = Inl (enoent (PyStr ''/tmp/gone.zip''))
   \<and> fst (task_get_file alice (one_task_world (done_task [(''path'', PyStr ''/tmp/gone.zip''),
             (''user'', PyStr ''alice''), (''filename'', PyStr ''a.zip'')])) ''t1'' None)
       = Abort 500 (Some (enoent (PyStr ''/tmp/gone.zip'')))
   \<and> revoked (snd (task_get_file alice (one_task_world (done_task [(''path'', PyStr ''/tmp/gone.zip''),
             (''user'', PyStr ''alice''), (''filename'', PyStr ''a.zip'')])) ''t1'' None)) = [''t1'']
   \<and> fst (task_get_file alice
        (snd (task_get_file alice (one_task_world (done_task [(''path'', PyStr ''/tmp/gone.zip''),
             (''user'', PyStr ''alice''), (''filename'', PyStr ''a.zip'')])) ''t1'' None))
        ''t1'' None) = Abort 500 (Some (enoent (PyStr ''/tmp/gone.zip'')))"
proof -
  let ?w = "one_task_world (done_task [(''path'', PyStr ''/tmp/gone.zip''),
             (''user'', PyStr ''alice''), (''filename'', PyStr ''a.zip'')])"
  have s: "state (AsyncResult ?w ''t1'') = ''SUCCESS''"
    by (simp add: AsyncResult_def one_task_world_def done_task_def)
  have g: "py_get (result (AsyncResult ?w ''t1'')) ''path'' = Inr (PyStr ''/tmp/gone.zip'')"
    "py_get (result (AsyncResult ?w ''t1'')) ''user'' = Inr (PyStr ''alice'')"
    "py_get (result (AsyncResult ?w ''t1'')) ''server'' = Inr PyNone"
    "py_get (result (AsyncResult ?w ''t1'')) ''filename'' = Inr (PyStr ''a.zip'')"
    by (simp_all add: AsyncResult_def one_task_world_def done_task_def)
  have n: "\<not> truthy PyNone" by simp
  have a: "PyStr (user_name alice) = PyStr ''alice'' \<or> is_admin alice"
    by (simp add: alice_def)
  have q: "\<not> db_query_fault ?w"
    by (simp add: one_task_world_def quiet_world_def)
  have "open": "open_rb ?w (PyStr ''/tmp/gone.zip'') = Inl (enoent (PyStr ''/tmp/gone.zip''))"
    by (simp add: one_task_world_def quiet_world_def)
  have rv: "revoked ?w = []"
    by (simp add: one_task_world_def quiet_world_def)
  from C10_local_fetch [OF s g n a q, of None "enoent (PyStr ''/tmp/gone.zip'')" "[]"]
    s n q "open" rv
  show ?thesis by simp
qed

end
